theory Spec2Isabelle
  imports Main "HOL-Library.Word"
begin

unbundle bit_operations_syntax

section \<open>The uinput PS5 joypad of inputtino (joypad\_ps.cpp)\<close>

text \<open>
  The theory embeds \<^verbatim>\<open>src/uinput/joypad_ps.cpp\<close>: the capability descriptor built by
  \<^verbatim>\<open>create_ps_controller\<close>, the session operations \<^verbatim>\<open>create\<close>,
  \<^verbatim>\<open>set_pressed_buttons\<close>, \<^verbatim>\<open>set_stick\<close>, \<^verbatim>\<open>set_triggers\<close> and the destructor.
  Every call of \<^verbatim>\<open>libevdev_uinput_write_event\<close> is recorded, in program order, in the list
  of writes an operation returns next to the updated session state.
\<close>

subsection \<open>Machine integers\<close>

type_synonym s32 = "32 word"  \<comment> \<open>C \<^verbatim>\<open>int\<close> and \<^verbatim>\<open>unsigned int\<close>, read with \<open>sint\<close> or \<open>unat\<close>\<close>
type_synonym s16 = "16 word"  \<comment> \<open>C \<^verbatim>\<open>short\<close>, \<^verbatim>\<open>int16_t\<close> and \<^verbatim>\<open>uint16_t\<close>\<close>

subsection \<open>Event vocabulary of linux/input.h\<close>

text \<open>
  The event types and codes the file names. They are constants of the kernel header; the
  claims never depend on their numeric values, so they are kept symbolic.
\<close>

datatype ev_type = EV_SYN | EV_KEY | EV_ABS | EV_FF

datatype ev_code =
    SYN_REPORT
  | BTN_WEST | BTN_EAST | BTN_NORTH | BTN_SOUTH
  | BTN_THUMBL | BTN_THUMBR
  | BTN_TR | BTN_TL | BTN_TR2 | BTN_TL2
  | BTN_SELECT | BTN_MODE | BTN_START
  | ABS_HAT0Y | ABS_HAT0X
  | ABS_X | ABS_RX | ABS_Y | ABS_RY
  | ABS_Z | ABS_RZ
  | FF_RUMBLE | FF_CONSTANT | FF_PERIODIC | FF_SINE | FF_RAMP | FF_GAIN

text \<open>
  \<^verbatim>\<open>struct input_absinfo\<close> of linux/input.h, with its fields in the header's order:
  value, minimum, maximum, fuzz, flat, resolution. A brace initialiser fills them in that
  order.
\<close>

record input_absinfo =
  abs_value :: s32
  minimum :: s32
  maximum :: s32
  fuzz :: s32
  flat :: s32
  resolution :: s32

definition absinfo_init :: "s32 \<Rightarrow> s32 \<Rightarrow> s32 \<Rightarrow> s32 \<Rightarrow> s32 \<Rightarrow> s32 \<Rightarrow> input_absinfo" where
  "absinfo_init a b c d e f =
     \<lparr>abs_value = a, minimum = b, maximum = c, fuzz = d, flat = e, resolution = f\<rparr>"

subsection \<open>The libevdev device description\<close>

text \<open>
  What the \<^verbatim>\<open>libevdev_set_*\<close> and \<^verbatim>\<open>libevdev_enable_*\<close> calls record in a
  \<^verbatim>\<open>libevdev\<close> object: the identity, the enabled event types, the enabled codes in the
  order of the calls, and the calibration attached to an absolute axis.
\<close>

record libevdev =
  dev_name :: string
  id_vendor :: s32
  id_product :: s32
  id_version :: s32
  id_bustype :: s32
  ev_types :: "ev_type list"
  ev_codes :: "(ev_type \<times> ev_code) list"
  abs_info :: "ev_code \<rightharpoonup> input_absinfo"

definition BUS_USB :: s32 where
  "BUS_USB = 3"

definition libevdev_new :: libevdev where
  "libevdev_new =
     \<lparr>dev_name = [], id_vendor = 0, id_product = 0, id_version = 0, id_bustype = 0,
      ev_types = [], ev_codes = [], abs_info = Map.empty\<rparr>"

definition libevdev_set_name :: "string \<Rightarrow> libevdev \<Rightarrow> libevdev" where
  "libevdev_set_name n dev = dev\<lparr>dev_name := n\<rparr>"

definition libevdev_set_id_vendor :: "s32 \<Rightarrow> libevdev \<Rightarrow> libevdev" where
  "libevdev_set_id_vendor v dev = dev\<lparr>id_vendor := v\<rparr>"

definition libevdev_set_id_product :: "s32 \<Rightarrow> libevdev \<Rightarrow> libevdev" where
  "libevdev_set_id_product v dev = dev\<lparr>id_product := v\<rparr>"

definition libevdev_set_id_version :: "s32 \<Rightarrow> libevdev \<Rightarrow> libevdev" where
  "libevdev_set_id_version v dev = dev\<lparr>id_version := v\<rparr>"

definition libevdev_set_id_bustype :: "s32 \<Rightarrow> libevdev \<Rightarrow> libevdev" where
  "libevdev_set_id_bustype v dev = dev\<lparr>id_bustype := v\<rparr>"

definition libevdev_enable_event_type :: "ev_type \<Rightarrow> libevdev \<Rightarrow> libevdev" where
  "libevdev_enable_event_type t dev = dev\<lparr>ev_types := ev_types dev @ [t]\<rparr>"

definition libevdev_enable_event_code ::
  "ev_type \<Rightarrow> ev_code \<Rightarrow> input_absinfo option \<Rightarrow> libevdev \<Rightarrow> libevdev" where
  "libevdev_enable_event_code t c data dev =
     (case data of
        None \<Rightarrow> dev\<lparr>ev_codes := ev_codes dev @ [(t, c)]\<rparr>
      | Some a \<Rightarrow> dev\<lparr>ev_codes := ev_codes dev @ [(t, c)], abs_info := (abs_info dev)(c \<mapsto> a)\<rparr>)"

text \<open>
  \<^verbatim>\<open>DeviceDefinition\<close> is declared in inputtino/input.hpp; the four fields below are the
  ones \<^verbatim>\<open>create_ps_controller\<close> reads.
\<close>

record DeviceDefinition =
  name :: string
  vendor_id :: s16
  product_id :: s16
  version :: s16

text \<open>
  Lines 24 to 71 of \<^verbatim>\<open>create_ps_controller\<close>: the calls on \<^verbatim>\<open>dev\<close>, listed in program
  order and applied from the first to the last.
\<close>

definition ps_controller_dev :: "DeviceDefinition \<Rightarrow> libevdev" where
  "ps_controller_dev device =
     (let dpad = absinfo_init 0 (- 1) 1 0 0 0;
          stick = absinfo_init 0 (- 32768) 32767 16 128 0;
          trigger = absinfo_init 0 0 255 0 0 0
      in foldl (\<lambda>dev call. call dev) libevdev_new
         [libevdev_set_name (name device),
          libevdev_set_id_vendor (ucast (vendor_id device)),
          libevdev_set_id_product (ucast (product_id device)),
          libevdev_set_id_version (ucast (version device)),
          libevdev_set_id_bustype BUS_USB,
          libevdev_enable_event_type EV_KEY,
          libevdev_enable_event_code EV_KEY BTN_WEST None,
          libevdev_enable_event_code EV_KEY BTN_EAST None,
          libevdev_enable_event_code EV_KEY BTN_NORTH None,
          libevdev_enable_event_code EV_KEY BTN_SOUTH None,
          libevdev_enable_event_code EV_KEY BTN_THUMBL None,
          libevdev_enable_event_code EV_KEY BTN_THUMBR None,
          libevdev_enable_event_code EV_KEY BTN_TR None,
          libevdev_enable_event_code EV_KEY BTN_TL None,
          libevdev_enable_event_code EV_KEY BTN_TR2 None,
          libevdev_enable_event_code EV_KEY BTN_TL2 None,
          libevdev_enable_event_code EV_KEY BTN_SELECT None,
          libevdev_enable_event_code EV_KEY BTN_MODE None,
          libevdev_enable_event_code EV_KEY BTN_START None,
          libevdev_enable_event_type EV_ABS,
          libevdev_enable_event_code EV_ABS ABS_HAT0Y (Some dpad),
          libevdev_enable_event_code EV_ABS ABS_HAT0X (Some dpad),
          libevdev_enable_event_code EV_ABS ABS_X (Some stick),
          libevdev_enable_event_code EV_ABS ABS_RX (Some stick),
          libevdev_enable_event_code EV_ABS ABS_Y (Some stick),
          libevdev_enable_event_code EV_ABS ABS_RY (Some stick),
          libevdev_enable_event_code EV_ABS ABS_Z (Some trigger),
          libevdev_enable_event_code EV_ABS ABS_RZ (Some trigger),
          libevdev_enable_event_type EV_FF,
          libevdev_enable_event_code EV_FF FF_RUMBLE None,
          libevdev_enable_event_code EV_FF FF_CONSTANT None,
          libevdev_enable_event_code EV_FF FF_PERIODIC None,
          libevdev_enable_event_code EV_FF FF_SINE None,
          libevdev_enable_event_code EV_FF FF_RAMP None,
          libevdev_enable_event_code EV_FF FF_GAIN None])"

subsection \<open>Registration with uinput\<close>

type_synonym handle = nat  \<comment> \<open>the \<^verbatim>\<open>libevdev_uinput*\<close> a registration hands out\<close>

text \<open>
  The kernel side is a parameter: \<open>uinput_create_from_device\<close> answers a description with
  the error code and the handle that \<^verbatim>\<open>libevdev_uinput_create_from_device\<close> returns, and
  \<open>strerror\<close> is libc's.
\<close>

record uinput_env =
  uinput_create_from_device :: "libevdev \<Rightarrow> s32 \<times> handle"
  strerror :: "s32 \<Rightarrow> string"

definition create_ps_controller :: "uinput_env \<Rightarrow> DeviceDefinition \<Rightarrow> string + handle" where
  "create_ps_controller env device =
     (let dev = ps_controller_dev device;
          (err, uidev) = uinput_create_from_device env dev
      in if err \<noteq> 0 then Inl (strerror env (- err)) else Inr uidev)"

subsection \<open>Session state\<close>

text \<open>
  A \<^verbatim>\<open>std::thread\<close> member: default constructed, owning a running thread (joinable), or
  detached from the thread it started.
\<close>

datatype std_thread = NoThread | Attached | Detached

fun joinable :: "std_thread \<Rightarrow> bool" where
  "joinable Attached = True"
| "joinable NoThread = False"
| "joinable Detached = False"

type_synonym callback = nat  \<comment> \<open>identifies the \<^verbatim>\<open>std::function\<close> stored by \<^verbatim>\<open>set_on_rumble\<close>\<close>

record PS5JoypadState =
  joy :: "handle option"
  currently_pressed_btns :: s32
  stop_listening_events :: bool
  events_thread :: std_thread
  on_rumble :: "callback option"

text \<open>
  Modelled from the spec: \<^verbatim>\<open>PS5JoypadState\<close> and its member initialisers are declared in
  inputtino/protected\_ps5\_types.hpp, which is not among the sources. The record above has
  the members joypad\_ps.cpp uses, the previous mask at the width of the argument of
  \<^verbatim>\<open>set_pressed_buttons\<close>. The spec's session starts from an empty previous button mask,
  with no handle, no callback, the stop flag clear and no listener.
\<close>

definition PS5JoypadState_init :: PS5JoypadState where
  "PS5JoypadState_init =
     \<lparr>joy = None, currently_pressed_btns = 0, stop_listening_events = False,
      events_thread = NoThread, on_rumble = None\<rparr>"

text \<open>The constructor (lines 82 to 83) makes a fresh state and reads neither argument.\<close>

definition PS5Joypad :: "s16 \<Rightarrow> 8 word list \<Rightarrow> PS5JoypadState" where
  "PS5Joypad vendor mac_address = PS5JoypadState_init"

text \<open>
  \<^verbatim>\<open>PS5Joypad::create\<close> (lines 94 to 108). The listener thread is started on the state and
  then detached.
\<close>

definition create :: "uinput_env \<Rightarrow> DeviceDefinition \<Rightarrow> string + PS5JoypadState" where
  "create env device =
     (case create_ps_controller env device of
        Inl msg \<Rightarrow> Inl msg
      | Inr joy_el \<Rightarrow>
          (let joypad = PS5Joypad 0 [];
               joypad = joypad\<lparr>joy := Some joy_el\<rparr>;
               event_thread = Attached;
               joypad = joypad\<lparr>events_thread := event_thread\<rparr>;
               joypad = joypad\<lparr>events_thread := Detached\<rparr>
           in Inr joypad))"

text \<open>
  The destructor (lines 85 to 92) on the session's \<^verbatim>\<open>_state\<close> pointer, which is null in a
  moved-from session. The result is the state it leaves and whether it called
  \<^verbatim>\<open>events_thread.join()\<close>, the only call in it that waits for the listener.
\<close>

fun destroy :: "PS5JoypadState option \<Rightarrow> PS5JoypadState option \<times> bool" where
  "destroy None = (None, False)"
| "destroy (Some st) =
     (let st = st\<lparr>stop_listening_events := True\<rparr>
      in if joy st \<noteq> None \<and> joinable (events_thread st)
         then (Some (st\<lparr>events_thread := NoThread\<rparr>), True)
         else (Some st, False))"

subsection \<open>Commands\<close>

datatype uinput_write = Write (w_dev: handle) (w_type: ev_type) (w_code: ev_code) (w_value: s32)

text \<open>
  The button flags of \<^verbatim>\<open>Joypad::CONTROLLER_BTN\<close> are declared in inputtino/input.hpp, which
  is not among the sources: the model takes their values as a parameter. The fields are
  named as in the enumeration; the face buttons \<^verbatim>\<open>A\<close>, \<^verbatim>\<open>B\<close>, \<^verbatim>\<open>X\<close>, \<^verbatim>\<open>Y\<close> carry the
  prefix \<open>BTN\<close> to keep the single letters free for variables.
\<close>

record CONTROLLER_BTN =
  DPAD_UP :: s32
  DPAD_DOWN :: s32
  DPAD_LEFT :: s32
  DPAD_RIGHT :: s32
  START :: s32
  BACK :: s32
  LEFT_STICK :: s32
  RIGHT_STICK :: s32
  LEFT_BUTTON :: s32
  RIGHT_BUTTON :: s32
  HOME :: s32
  BTN_A :: s32
  BTN_B :: s32
  BTN_X :: s32
  BTN_Y :: s32

text \<open>
  \<^verbatim>\<open>Joypad::STICK_POSITION\<close>, whose enumerators \<^verbatim>\<open>RS\<close> and \<^verbatim>\<open>LS\<close> are written with
  their class name.
\<close>

datatype STICK_POSITION = Joypad_RS | Joypad_LS

text \<open>
  One statement of the shape
  \<^verbatim>\<open>if (FLAG & bf_changed) libevdev_uinput_write_event(controller, EV_KEY, CODE, bf_new & FLAG ? 1 : 0);\<close>
\<close>

definition key_write :: "handle \<Rightarrow> s32 \<Rightarrow> ev_code \<Rightarrow> s32 \<Rightarrow> s32 \<Rightarrow> uinput_write list" where
  "key_write controller flag code bf_changed bf_new =
     (if flag AND bf_changed \<noteq> 0
      then [Write controller EV_KEY code (if bf_new AND flag \<noteq> 0 then 1 else 0)]
      else [])"

text \<open>
  One of the two directional-pad blocks (lines 118 to 128): \<open>neg\<close> is the up or left flag,
  \<open>pos\<close> the down or right flag.
\<close>

definition dpad_write :: "handle \<Rightarrow> s32 \<Rightarrow> s32 \<Rightarrow> ev_code \<Rightarrow> s32 \<Rightarrow> s32 \<Rightarrow> uinput_write list" where
  "dpad_write controller neg pos code bf_changed bf_new =
     (if (neg OR pos) AND bf_changed \<noteq> 0
      then (let button_state = (if bf_new AND neg \<noteq> 0 then - 1
                                else (if bf_new AND pos \<noteq> 0 then 1 else 0))
            in [Write controller EV_ABS code button_state])
      else [])"

definition set_pressed_buttons ::
  "CONTROLLER_BTN \<Rightarrow> PS5JoypadState \<Rightarrow> s32 \<Rightarrow> PS5JoypadState \<times> uinput_write list" where
  "set_pressed_buttons F st newly_pressed =
     (let bf_changed = newly_pressed XOR currently_pressed_btns st;
          bf_new = newly_pressed;
          out = (case joy st of
                   None \<Rightarrow> []
                 | Some controller \<Rightarrow>
                     (if bf_changed \<noteq> 0
                      then dpad_write controller (DPAD_UP F) (DPAD_DOWN F) ABS_HAT0Y bf_changed bf_new
                         @ dpad_write controller (DPAD_LEFT F) (DPAD_RIGHT F) ABS_HAT0X bf_changed bf_new
                         @ key_write controller (START F) BTN_START bf_changed bf_new
                         @ key_write controller (BACK F) BTN_SELECT bf_changed bf_new
                         @ key_write controller (LEFT_STICK F) BTN_THUMBL bf_changed bf_new
                         @ key_write controller (RIGHT_STICK F) BTN_THUMBR bf_changed bf_new
                         @ key_write controller (LEFT_BUTTON F) BTN_TL bf_changed bf_new
                         @ key_write controller (RIGHT_BUTTON F) BTN_TR bf_changed bf_new
                         @ key_write controller (HOME F) BTN_MODE bf_changed bf_new
                         @ key_write controller (BTN_A F) BTN_SOUTH bf_changed bf_new
                         @ key_write controller (BTN_B F) BTN_EAST bf_changed bf_new
                         @ key_write controller (BTN_X F) BTN_WEST bf_changed bf_new
                         @ key_write controller (BTN_Y F) BTN_NORTH bf_changed bf_new
                      else [])
                     @ [Write controller EV_SYN SYN_REPORT 0])
      in (st\<lparr>currently_pressed_btns := bf_new\<rparr>, out))"

text \<open>
  \<^verbatim>\<open>set_stick\<close> (lines 159 to 171). The \<^verbatim>\<open>short\<close> arguments are promoted to \<^verbatim>\<open>int\<close>
  before the negation, so \<^verbatim>\<open>-y\<close> is computed on 32 bits.
\<close>

definition set_stick ::
  "PS5JoypadState \<Rightarrow> STICK_POSITION \<Rightarrow> s16 \<Rightarrow> s16 \<Rightarrow> PS5JoypadState \<times> uinput_write list" where
  "set_stick st stick_type x y =
     (case joy st of
        None \<Rightarrow> (st, [])
      | Some controller \<Rightarrow>
          (st, (if stick_type = Joypad_LS
                then [Write controller EV_ABS ABS_X (scast x),
                      Write controller EV_ABS ABS_Y (- scast y)]
                else [Write controller EV_ABS ABS_RX (scast x),
                      Write controller EV_ABS ABS_RY (- scast y)])
               @ [Write controller EV_SYN SYN_REPORT 0]))"

text \<open>\<^verbatim>\<open>set_triggers\<close> (lines 173 to 189), with both branches of each conditional.\<close>

definition set_triggers ::
  "PS5JoypadState \<Rightarrow> s16 \<Rightarrow> s16 \<Rightarrow> PS5JoypadState \<times> uinput_write list" where
  "set_triggers st left right =
     (case joy st of
        None \<Rightarrow> (st, [])
      | Some controller \<Rightarrow>
          (st, (if 0 < sint left
                then [Write controller EV_ABS ABS_Z (scast left)]
                else [Write controller EV_ABS ABS_Z (scast left)])
             @ (if 0 < sint right
                then [Write controller EV_ABS ABS_RZ (scast right)]
                else [Write controller EV_ABS ABS_RZ (scast right)])
             @ [Write controller EV_SYN SYN_REPORT 0]))"

definition set_on_rumble :: "PS5JoypadState \<Rightarrow> callback \<Rightarrow> PS5JoypadState" where
  "set_on_rumble st cb = st\<lparr>on_rumble := Some cb\<rparr>"

text \<open>
  \<^verbatim>\<open>set_triggers\<close> as the claim about it reads: the handle check of the source, and inside
  it one write per trigger with no test of the sign.
\<close>

definition set_triggers_branch_free ::
  "PS5JoypadState \<Rightarrow> s16 \<Rightarrow> s16 \<Rightarrow> PS5JoypadState \<times> uinput_write list" where
  "set_triggers_branch_free st left right =
     (case joy st of
        None \<Rightarrow> (st, [])
      | Some controller \<Rightarrow>
          (st, [Write controller EV_ABS ABS_Z (scast left),
                Write controller EV_ABS ABS_RZ (scast right),
                Write controller EV_SYN SYN_REPORT 0]))"

subsection \<open>Sequences of calls\<close>

text \<open>
  A caller that passes the masks \<open>ms\<close> to \<^verbatim>\<open>set_pressed_buttons\<close> one after the other; the
  result keeps the writes of each call apart.
\<close>

fun press_all ::
  "CONTROLLER_BTN \<Rightarrow> PS5JoypadState \<Rightarrow> s32 list \<Rightarrow> PS5JoypadState \<times> uinput_write list list" where
  "press_all F st [] = (st, [])"
| "press_all F st (m # ms) =
     (let (st1, out) = set_pressed_buttons F st m;
          (st2, outs) = press_all F st1 ms
      in (st2, out # outs))"

datatype command =
    Set_pressed_buttons s32
  | Set_stick STICK_POSITION s16 s16
  | Set_triggers s16 s16
  | Set_on_rumble callback

fun exec :: "CONTROLLER_BTN \<Rightarrow> PS5JoypadState \<Rightarrow> command \<Rightarrow> PS5JoypadState \<times> uinput_write list" where
  "exec F st (Set_pressed_buttons m) = set_pressed_buttons F st m"
| "exec F st (Set_stick s x y) = set_stick st s x y"
| "exec F st (Set_triggers l r) = set_triggers st l r"
| "exec F st (Set_on_rumble cb) = (set_on_rumble st cb, [])"

fun run :: "CONTROLLER_BTN \<Rightarrow> PS5JoypadState \<Rightarrow> command list \<Rightarrow> PS5JoypadState \<times> uinput_write list" where
  "run F st [] = (st, [])"
| "run F st (c # cs) =
     (let (st1, out) = exec F st c;
          (st2, outs) = run F st1 cs
      in (st2, out @ outs))"

subsection \<open>Reading writes and descriptors\<close>

text \<open>A write with its value read as the signed \<^verbatim>\<open>int\<close> the kernel receives.\<close>

definition as_signed :: "uinput_write \<Rightarrow> handle \<times> ev_type \<times> ev_code \<times> int" where
  "as_signed w = (w_dev w, w_type w, w_code w, sint (w_value w))"

text \<open>
  The calibration a description carries for an axis, as \<^verbatim>\<open>libevdev_get_abs_minimum\<close> and
  its siblings read it back.
\<close>

record calibration =
  cal_minimum :: int
  cal_maximum :: int
  cal_fuzz :: int
  cal_flat :: int

definition axis_calibration :: "libevdev \<Rightarrow> ev_code \<Rightarrow> calibration option" where
  "axis_calibration dev c =
     map_option
       (\<lambda>a. \<lparr>cal_minimum = sint (minimum a), cal_maximum = sint (maximum a),
             cal_fuzz = sint (fuzz a), cal_flat = sint (flat a)\<rparr>)
       (abs_info dev c)"

subsection \<open>The button encoder as a table\<close>

text \<open>
  The value a directional-pad block and a button statement compute from the new mask.
\<close>

definition dpad_state :: "s32 \<Rightarrow> s32 \<Rightarrow> s32 \<Rightarrow> s32" where
  "dpad_state neg pos bf_new =
     (if bf_new AND neg \<noteq> 0 then - 1 else (if bf_new AND pos \<noteq> 0 then 1 else 0))"

definition key_state :: "s32 \<Rightarrow> s32 \<Rightarrow> s32" where
  "key_state flag bf_new = (if bf_new AND flag \<noteq> 0 then 1 else 0)"

text \<open>
  The thirteen conditional writes of \<^verbatim>\<open>set_pressed_buttons\<close> in program order: the mask
  tested against the changed bits, the event type, the code and the value written.
\<close>

definition write_table :: "CONTROLLER_BTN \<Rightarrow> s32 \<Rightarrow> (s32 \<times> ev_type \<times> ev_code \<times> s32) list" where
  "write_table F bf_new =
     [(DPAD_UP F OR DPAD_DOWN F, EV_ABS, ABS_HAT0Y, dpad_state (DPAD_UP F) (DPAD_DOWN F) bf_new),
      (DPAD_LEFT F OR DPAD_RIGHT F, EV_ABS, ABS_HAT0X, dpad_state (DPAD_LEFT F) (DPAD_RIGHT F) bf_new),
      (START F, EV_KEY, BTN_START, key_state (START F) bf_new),
      (BACK F, EV_KEY, BTN_SELECT, key_state (BACK F) bf_new),
      (LEFT_STICK F, EV_KEY, BTN_THUMBL, key_state (LEFT_STICK F) bf_new),
      (RIGHT_STICK F, EV_KEY, BTN_THUMBR, key_state (RIGHT_STICK F) bf_new),
      (LEFT_BUTTON F, EV_KEY, BTN_TL, key_state (LEFT_BUTTON F) bf_new),
      (RIGHT_BUTTON F, EV_KEY, BTN_TR, key_state (RIGHT_BUTTON F) bf_new),
      (HOME F, EV_KEY, BTN_MODE, key_state (HOME F) bf_new),
      (BTN_A F, EV_KEY, BTN_SOUTH, key_state (BTN_A F) bf_new),
      (BTN_B F, EV_KEY, BTN_EAST, key_state (BTN_B F) bf_new),
      (BTN_X F, EV_KEY, BTN_WEST, key_state (BTN_X F) bf_new),
      (BTN_Y F, EV_KEY, BTN_NORTH, key_state (BTN_Y F) bf_new)]"

definition touched :: "s32 \<Rightarrow> s32 \<times> ev_type \<times> ev_code \<times> s32 \<Rightarrow> bool" where
  "touched bf_changed e = (fst e AND bf_changed \<noteq> 0)"

definition to_write :: "handle \<Rightarrow> s32 \<times> ev_type \<times> ev_code \<times> s32 \<Rightarrow> uinput_write" where
  "to_write h e = Write h (fst (snd e)) (fst (snd (snd e))) (snd (snd (snd e)))"

text \<open>
  The specification's reading: every flag on its own, with the event that reports it. The
  two flags of a directional pair report on the same axis.
\<close>

definition flag_events :: "CONTROLLER_BTN \<Rightarrow> s32 \<Rightarrow> (s32 \<times> ev_type \<times> ev_code \<times> s32) list" where
  "flag_events F new =
     [(DPAD_UP F, EV_ABS, ABS_HAT0Y, dpad_state (DPAD_UP F) (DPAD_DOWN F) new),
      (DPAD_DOWN F, EV_ABS, ABS_HAT0Y, dpad_state (DPAD_UP F) (DPAD_DOWN F) new),
      (DPAD_LEFT F, EV_ABS, ABS_HAT0X, dpad_state (DPAD_LEFT F) (DPAD_RIGHT F) new),
      (DPAD_RIGHT F, EV_ABS, ABS_HAT0X, dpad_state (DPAD_LEFT F) (DPAD_RIGHT F) new),
      (START F, EV_KEY, BTN_START, key_state (START F) new),
      (BACK F, EV_KEY, BTN_SELECT, key_state (BACK F) new),
      (LEFT_STICK F, EV_KEY, BTN_THUMBL, key_state (LEFT_STICK F) new),
      (RIGHT_STICK F, EV_KEY, BTN_THUMBR, key_state (RIGHT_STICK F) new),
      (LEFT_BUTTON F, EV_KEY, BTN_TL, key_state (LEFT_BUTTON F) new),
      (RIGHT_BUTTON F, EV_KEY, BTN_TR, key_state (RIGHT_BUTTON F) new),
      (HOME F, EV_KEY, BTN_MODE, key_state (HOME F) new),
      (BTN_A F, EV_KEY, BTN_SOUTH, key_state (BTN_A F) new),
      (BTN_B F, EV_KEY, BTN_EAST, key_state (BTN_B F) new),
      (BTN_X F, EV_KEY, BTN_WEST, key_state (BTN_X F) new),
      (BTN_Y F, EV_KEY, BTN_NORTH, key_state (BTN_Y F) new)]"

text \<open>
  The events for the flags that differ between the previous and the new mask, that is the
  flags that meet \<open>new XOR prev\<close>.
\<close>

definition changed_events :: "handle \<Rightarrow> CONTROLLER_BTN \<Rightarrow> s32 \<Rightarrow> s32 \<Rightarrow> uinput_write set" where
  "changed_events h F prev new =
     to_write h ` set (filter (touched (new XOR prev)) (flag_events F new))"

subsection \<open>Concrete inputs\<close>

text \<open>
  An assignment of one bit to each flag, used to evaluate the model on concrete inputs. The
  theorems hold for every assignment.
\<close>

definition one_bit_flags :: CONTROLLER_BTN where
  "one_bit_flags =
     \<lparr>DPAD_UP = 0x0001, DPAD_DOWN = 0x0002, DPAD_LEFT = 0x0004, DPAD_RIGHT = 0x0008,
      START = 0x0010, BACK = 0x0020, LEFT_STICK = 0x0040, RIGHT_STICK = 0x0080,
      LEFT_BUTTON = 0x0100, RIGHT_BUTTON = 0x0200, HOME = 0x0400,
      BTN_A = 0x1000, BTN_B = 0x2000, BTN_X = 0x4000, BTN_Y = 0x8000\<rparr>"

definition sample_definition :: DeviceDefinition where
  "sample_definition =
     \<lparr>name = ''Virtual PS5 pad'', vendor_id = 0x054C, product_id = 0x0CE6, version = 0x8111\<rparr>"

text \<open>A kernel that registers every description under handle 7, and one that refuses.\<close>

definition accepting_env :: uinput_env where
  "accepting_env = \<lparr>uinput_create_from_device = (\<lambda>dev. (0, 7)), strerror = (\<lambda>e. ''errno'')\<rparr>"

definition refusing_env :: uinput_env where
  "refusing_env = \<lparr>uinput_create_from_device = (\<lambda>dev. (- 13, 0)), strerror = (\<lambda>e. ''errno'')\<rparr>"

definition live_session :: PS5JoypadState where
  "live_session = PS5JoypadState_init\<lparr>joy := Some 7, events_thread := Detached\<rparr>"

section \<open>Word facts\<close>

lemma sint_scast_16_32: "sint (scast (x :: 16 word) :: 32 word) = sint x"
  by (rule sint_up_scast) (simp add: is_up)

lemma sint_neg_scast_16_32: "sint (- scast (y :: 16 word) :: 32 word) = - sint y"
proof -
  have b: "- (2 ^ 15) \<le> sint y" "sint y < 2 ^ 15"
    using sint_ge [of y] sint_lt [of y] by simp_all
  have "sint (- scast y :: 32 word) = signed_take_bit 31 (- sint (scast y :: 32 word))"
    by (simp add: sint_word_ariths)
  also have "\<dots> = signed_take_bit 31 (- sint y)"
    by (simp add: sint_scast_16_32)
  also have "\<dots> = - sint y"
    using b by (intro signed_take_bit_int_eq_self) simp_all
  finally show ?thesis .
qed

lemma or_and_eq_0: "(a OR b) AND c = 0 \<longleftrightarrow> a AND c = 0 \<and> b AND c = (0 :: s32)"
  by (simp add: bit.conj_disj_distrib2 or_eq_0_iff)

section \<open>The button encoder\<close>

lemma key_write_table:
  "key_write h f c ch n = map (to_write h) (filter (touched ch) [(f, EV_KEY, c, key_state f n)])"
  by (simp add: key_write_def touched_def to_write_def key_state_def)

lemma dpad_write_table:
  "dpad_write h neg pos c ch n =
     map (to_write h) (filter (touched ch) [(neg OR pos, EV_ABS, c, dpad_state neg pos n)])"
  by (simp add: dpad_write_def touched_def to_write_def dpad_state_def)

lemma filter_touched_0: "filter (touched 0) xs = []"
  by (induction xs) (simp_all add: touched_def)

lemma filter_cons_app: "filter P (x # y # ys) = filter P [x] @ filter P (y # ys)"
  by simp

text \<open>With a handle, the writes of a call are the touched rows of the table, then the report.\<close>

lemma set_pressed_buttons_table:
  assumes "joy st = Some h"
  shows "set_pressed_buttons F st new =
    (st\<lparr>currently_pressed_btns := new\<rparr>,
     map (to_write h) (filter (touched (new XOR currently_pressed_btns st)) (write_table F new))
       @ [Write h EV_SYN SYN_REPORT 0])"
proof (cases "new XOR currently_pressed_btns st = 0")
  case True
  then show ?thesis using assms
    by (simp add: set_pressed_buttons_def filter_touched_0)
next
  case False
  have "map (to_write h) (filter (touched ch) (write_table F new)) =
      dpad_write h (DPAD_UP F) (DPAD_DOWN F) ABS_HAT0Y ch new
    @ dpad_write h (DPAD_LEFT F) (DPAD_RIGHT F) ABS_HAT0X ch new
    @ key_write h (START F) BTN_START ch new
    @ key_write h (BACK F) BTN_SELECT ch new
    @ key_write h (LEFT_STICK F) BTN_THUMBL ch new
    @ key_write h (RIGHT_STICK F) BTN_THUMBR ch new
    @ key_write h (LEFT_BUTTON F) BTN_TL ch new
    @ key_write h (RIGHT_BUTTON F) BTN_TR ch new
    @ key_write h (HOME F) BTN_MODE ch new
    @ key_write h (BTN_A F) BTN_SOUTH ch new
    @ key_write h (BTN_B F) BTN_EAST ch new
    @ key_write h (BTN_X F) BTN_WEST ch new
    @ key_write h (BTN_Y F) BTN_NORTH ch new" for ch
    unfolding write_table_def key_write_table dpad_write_table
    by (simp only: filter_cons_app map_append)
  with False assms show ?thesis
    by (simp add: set_pressed_buttons_def Let_def)
qed

lemma fst_set_pressed_buttons:
  "fst (set_pressed_buttons F st new) = st\<lparr>currently_pressed_btns := new\<rparr>"
  by (simp add: set_pressed_buttons_def Let_def)

lemma touched_or:
  "touched ch (a OR b, r) \<longleftrightarrow> touched ch (a, r) \<or> touched ch (b, r)"
  by (simp add: touched_def or_and_eq_0)

lemma table_set:
  "to_write h ` set (filter (touched ch) (write_table F new)) =
   to_write h ` set (filter (touched ch) (flag_events F new))"
  unfolding write_table_def flag_events_def
  by (simp add: touched_or to_write_def)

lemma table_codes_distinct: "distinct (map (w_code \<circ> to_write h) (write_table F new))"
  by (simp add: write_table_def to_write_def)

lemma table_types: "e \<in> set (write_table F new) \<Longrightarrow> fst (snd e) \<noteq> EV_SYN"
  by (auto simp: write_table_def)

lemma frame_facts:
  assumes "joy st = Some h"
  shows "\<exists>body. snd (set_pressed_buttons F st new) = body @ [Write h EV_SYN SYN_REPORT 0]
     \<and> set body = changed_events h F (currently_pressed_btns st) new
     \<and> distinct (map w_code body)
     \<and> (\<forall>w \<in> set body. w_type w \<noteq> EV_SYN)"
proof -
  let ?ch = "new XOR currently_pressed_btns st"
  let ?body = "map (to_write h) (filter (touched ?ch) (write_table F new))"
  have 1: "snd (set_pressed_buttons F st new) = ?body @ [Write h EV_SYN SYN_REPORT 0]"
    by (simp add: set_pressed_buttons_table [OF assms])
  have 2: "set ?body = changed_events h F (currently_pressed_btns st) new"
    unfolding changed_events_def using table_set [of h ?ch F new] by simp
  have "distinct (map (w_code \<circ> to_write h) (filter (touched ?ch) (write_table F new)))"
    by (rule distinct_map_filter) (rule table_codes_distinct)
  then have 3: "distinct (map w_code ?body)"
    by simp
  have 4: "\<forall>w \<in> set ?body. w_type w \<noteq> EV_SYN"
    using table_types [of _ F new] by (auto simp: to_write_def)
  from 1 2 3 4 show ?thesis by blast
qed

text \<open>In a run of calls, the writes of call \<open>i\<close> are those of one call on the mask before it.\<close>

lemma press_all_nth:
  "i < length ms \<Longrightarrow>
   snd (press_all F st ms) ! i =
   snd (set_pressed_buttons F
          (st\<lparr>currently_pressed_btns := (currently_pressed_btns st # ms) ! i\<rparr>) (ms ! i))"
proof (induction ms arbitrary: st i)
  case Nil
  then show ?case by simp
next
  case (Cons m ms)
  show ?case
  proof (cases i)
    case 0
    then show ?thesis by (simp add: case_prod_unfold Let_def)
  next
    case (Suc j)
    with Cons.prems have j: "j < length ms" by simp
    have "snd (press_all F st (m # ms)) ! i =
          snd (press_all F (st\<lparr>currently_pressed_btns := m\<rparr>) ms) ! j"
      using Suc by (simp add: case_prod_unfold Let_def fst_set_pressed_buttons)
    also have "\<dots> = snd (set_pressed_buttons F
          (st\<lparr>currently_pressed_btns := (m # ms) ! j\<rparr>) (ms ! j))"
      using Cons.IH [OF j, of "st\<lparr>currently_pressed_btns := m\<rparr>"] by simp
    finally show ?thesis using Suc by simp
  qed
qed

text \<open>
  C1. For every previous mask and every new mask passed to \<^verbatim>\<open>set_pressed_buttons\<close> on a
  session with a live handle, the events written are exactly the events of the flags that
  differ between the two masks, each once and none for an unchanged flag, followed by exactly
  one \<open>SYN_REPORT\<close>. This holds for call \<open>i\<close> of every sequence \<open>ms\<close> of mask updates, the
  previous mask being the one stored before the sequence or the mask of call \<open>i - 1\<close>.
\<close>

theorem set_pressed_buttons_emits_changed:
  assumes "joy st = Some h" and "i < length ms"
  shows "\<exists>body. snd (press_all F st ms) ! i = body @ [Write h EV_SYN SYN_REPORT 0]
     \<and> set body = changed_events h F ((currently_pressed_btns st # ms) ! i) (ms ! i)
     \<and> distinct (map w_code body)
     \<and> (\<forall>w \<in> set body. w_type w \<noteq> EV_SYN)"
proof -
  let ?st = "st\<lparr>currently_pressed_btns := (currently_pressed_btns st # ms) ! i\<rparr>"
  have "joy ?st = Some h" using assms(1) by simp
  from frame_facts [OF this, of F "ms ! i"] press_all_nth [OF assms(2), of F st]
  show ?thesis by simp
qed

theorem set_pressed_buttons_emits_changed_witness:
  "joy live_session = Some 7 \<and> (1 :: nat) < length [0x1001, 0x1000 :: s32]
   \<and> (\<exists>body. snd (press_all one_bit_flags live_session [0x1001, 0x1000]) ! 1
                = body @ [Write 7 EV_SYN SYN_REPORT 0]
        \<and> set body = changed_events 7 one_bit_flags
                       ((currently_pressed_btns live_session # [0x1001, 0x1000]) ! 1)
                       ([0x1001, 0x1000] ! 1)
        \<and> distinct (map w_code body)
        \<and> (\<forall>w \<in> set body. w_type w \<noteq> EV_SYN))"
proof -
  have h1: "joy live_session = Some 7"
    by (simp add: live_session_def)
  have h2: "(1 :: nat) < length [0x1001, 0x1000 :: s32]"
    by simp
  from set_pressed_buttons_emits_changed [OF h1 h2, of one_bit_flags] h1 h2
  show ?thesis by blast
qed

text \<open>The first calls of a pad that presses up and A, releases up, and repeats the mask.\<close>

lemma press_all_example:
  "snd (press_all one_bit_flags live_session [0x1001, 0x1000, 0x1000]) =
     [[Write 7 EV_ABS ABS_HAT0Y (- 1), Write 7 EV_KEY BTN_SOUTH 1, Write 7 EV_SYN SYN_REPORT 0],
      [Write 7 EV_ABS ABS_HAT0Y 0, Write 7 EV_SYN SYN_REPORT 0],
      [Write 7 EV_SYN SYN_REPORT 0]]"
  by (simp add: set_pressed_buttons_def dpad_write_def key_write_def one_bit_flags_def
      live_session_def PS5JoypadState_init_def)

lemma changed_events_example:
  "changed_events 7 one_bit_flags 0x1001 0x1000 = {Write 7 EV_ABS ABS_HAT0Y 0}"
  by (simp add: changed_events_def flag_events_def touched_def to_write_def dpad_state_def
      key_state_def one_bit_flags_def)

section \<open>The directional pad\<close>

lemma filter_code_table:
  "filter (\<lambda>w. w_code w = c) (map (to_write h) (filter (touched ch) T)) =
   map (to_write h) (filter (\<lambda>e. touched ch e \<and> fst (snd (snd e)) = c) T)"
  by (simp add: filter_map comp_def to_write_def conj_commute)

lemma hat0y_writes:
  assumes "joy st = Some h"
  shows "filter (\<lambda>w. w_code w = ABS_HAT0Y) (snd (set_pressed_buttons F st new)) =
     (if (DPAD_UP F OR DPAD_DOWN F) AND (new XOR currently_pressed_btns st) \<noteq> 0
      then [Write h EV_ABS ABS_HAT0Y (dpad_state (DPAD_UP F) (DPAD_DOWN F) new)] else [])"
  by (simp add: set_pressed_buttons_table [OF assms] filter_code_table)
     (simp add: write_table_def touched_def to_write_def)

lemma hat0x_writes:
  assumes "joy st = Some h"
  shows "filter (\<lambda>w. w_code w = ABS_HAT0X) (snd (set_pressed_buttons F st new)) =
     (if (DPAD_LEFT F OR DPAD_RIGHT F) AND (new XOR currently_pressed_btns st) \<noteq> 0
      then [Write h EV_ABS ABS_HAT0X (dpad_state (DPAD_LEFT F) (DPAD_RIGHT F) new)] else [])"
  by (simp add: set_pressed_buttons_table [OF assms] filter_code_table)
     (simp add: write_table_def touched_def to_write_def)

lemma sint_dpad_state:
  "sint (dpad_state neg pos new) =
     (if new AND neg \<noteq> 0 then - 1 else if new AND pos \<noteq> 0 then 1 else 0)"
  by (simp add: dpad_state_def)

lemma repeated_mask:
  assumes "joy st = Some h"
  shows "snd (set_pressed_buttons F (fst (set_pressed_buttons F st new)) new) =
         [Write h EV_SYN SYN_REPORT 0]"
proof -
  have "joy (st\<lparr>currently_pressed_btns := new\<rparr>) = Some h"
    using assms by simp
  from set_pressed_buttons_table [OF this, of F new] show ?thesis
    by (simp add: fst_set_pressed_buttons filter_touched_0)
qed

text \<open>
  C2. On a session with a live handle, when a flag of the vertical pair (up, down) differs
  between the stored mask and the new one, \<^verbatim>\<open>set_pressed_buttons\<close> writes the axis
  \<open>ABS_HAT0Y\<close> exactly once, with -1 when up is set in the new mask, otherwise +1 when down
  is set, otherwise 0; the horizontal pair (left, right) does the same on \<open>ABS_HAT0X\<close>. So
  the axis is neutral when both flags are absent, opposing presses resolve to -1, and a
  repeated identical mask writes the report alone, with no axis event.
\<close>

theorem dpad_axis_value:
  assumes "joy st = Some h"
  shows "(DPAD_UP F AND (new XOR currently_pressed_btns st) \<noteq> 0
          \<or> DPAD_DOWN F AND (new XOR currently_pressed_btns st) \<noteq> 0 \<longrightarrow>
          map as_signed (filter (\<lambda>w. w_code w = ABS_HAT0Y) (snd (set_pressed_buttons F st new))) =
            [(h, EV_ABS, ABS_HAT0Y,
              if new AND DPAD_UP F \<noteq> 0 then - 1 else if new AND DPAD_DOWN F \<noteq> 0 then 1 else 0)])
       \<and> (DPAD_LEFT F AND (new XOR currently_pressed_btns st) \<noteq> 0
          \<or> DPAD_RIGHT F AND (new XOR currently_pressed_btns st) \<noteq> 0 \<longrightarrow>
          map as_signed (filter (\<lambda>w. w_code w = ABS_HAT0X) (snd (set_pressed_buttons F st new))) =
            [(h, EV_ABS, ABS_HAT0X,
              if new AND DPAD_LEFT F \<noteq> 0 then - 1 else if new AND DPAD_RIGHT F \<noteq> 0 then 1 else 0)])
       \<and> snd (set_pressed_buttons F (fst (set_pressed_buttons F st new)) new) =
           [Write h EV_SYN SYN_REPORT 0]"
proof (intro conjI impI)
  assume "DPAD_UP F AND (new XOR currently_pressed_btns st) \<noteq> 0
          \<or> DPAD_DOWN F AND (new XOR currently_pressed_btns st) \<noteq> 0"
  then have "(DPAD_UP F OR DPAD_DOWN F) AND (new XOR currently_pressed_btns st) \<noteq> 0"
    by (simp add: or_and_eq_0)
  then show "map as_signed (filter (\<lambda>w. w_code w = ABS_HAT0Y) (snd (set_pressed_buttons F st new))) =
            [(h, EV_ABS, ABS_HAT0Y,
              if new AND DPAD_UP F \<noteq> 0 then - 1 else if new AND DPAD_DOWN F \<noteq> 0 then 1 else 0)]"
    by (simp add: hat0y_writes [OF assms] as_signed_def sint_dpad_state)
next
  assume "DPAD_LEFT F AND (new XOR currently_pressed_btns st) \<noteq> 0
          \<or> DPAD_RIGHT F AND (new XOR currently_pressed_btns st) \<noteq> 0"
  then have "(DPAD_LEFT F OR DPAD_RIGHT F) AND (new XOR currently_pressed_btns st) \<noteq> 0"
    by (simp add: or_and_eq_0)
  then show "map as_signed (filter (\<lambda>w. w_code w = ABS_HAT0X) (snd (set_pressed_buttons F st new))) =
            [(h, EV_ABS, ABS_HAT0X,
              if new AND DPAD_LEFT F \<noteq> 0 then - 1 else if new AND DPAD_RIGHT F \<noteq> 0 then 1 else 0)]"
    by (simp add: hat0x_writes [OF assms] as_signed_def sint_dpad_state)
next
  show "snd (set_pressed_buttons F (fst (set_pressed_buttons F st new)) new) =
           [Write h EV_SYN SYN_REPORT 0]"
    by (rule repeated_mask [OF assms])
qed

theorem dpad_axis_value_witness:
  "joy live_session = Some 7
   \<and> DPAD_UP one_bit_flags AND (7 XOR currently_pressed_btns live_session) \<noteq> 0
   \<and> DPAD_LEFT one_bit_flags AND (7 XOR currently_pressed_btns live_session) \<noteq> 0
   \<and> map as_signed (filter (\<lambda>w. w_code w = ABS_HAT0Y)
                       (snd (set_pressed_buttons one_bit_flags live_session 7))) =
       [(7, EV_ABS, ABS_HAT0Y, - 1)]
   \<and> map as_signed (filter (\<lambda>w. w_code w = ABS_HAT0X)
                       (snd (set_pressed_buttons one_bit_flags live_session 7))) =
       [(7, EV_ABS, ABS_HAT0X, - 1)]
   \<and> snd (set_pressed_buttons one_bit_flags
             (fst (set_pressed_buttons one_bit_flags live_session 7)) 7) =
       [Write 7 EV_SYN SYN_REPORT 0]"
proof -
  have h: "joy live_session = Some 7"
    by (simp add: live_session_def)
  have m: "currently_pressed_btns live_session = 0"
    by (simp add: live_session_def PS5JoypadState_init_def)
  from dpad_axis_value [OF h, of one_bit_flags 7] h show ?thesis
    by (simp add: m one_bit_flags_def)
qed

section \<open>Sticks and triggers\<close>

lemma set_stick_live:
  assumes "joy st = Some h"
  shows "set_stick st Joypad_LS x y =
           (st, [Write h EV_ABS ABS_X (scast x), Write h EV_ABS ABS_Y (- scast y),
                 Write h EV_SYN SYN_REPORT 0])"
    and "set_stick st Joypad_RS x y =
           (st, [Write h EV_ABS ABS_RX (scast x), Write h EV_ABS ABS_RY (- scast y),
                 Write h EV_SYN SYN_REPORT 0])"
  using assms by (simp_all add: set_stick_def)

lemma set_triggers_live:
  assumes "joy st = Some h"
  shows "set_triggers st left right =
           (st, [Write h EV_ABS ABS_Z (scast left), Write h EV_ABS ABS_RZ (scast right),
                 Write h EV_SYN SYN_REPORT 0])"
  using assms by (simp add: set_triggers_def)

text \<open>
  C3. For both stick identifiers and every pair \<open>(x, y)\<close> of 16-bit signed values,
  \<^verbatim>\<open>set_stick\<close> on a session with a live handle writes \<open>x\<close> unchanged on the horizontal axis
  of that stick, the negation of \<open>y\<close> on its vertical axis, and then one \<open>SYN_REPORT\<close>;
  the state is unchanged.
\<close>

theorem set_stick_inverts_vertical:
  assumes "joy st = Some h"
  shows "map as_signed (snd (set_stick st Joypad_LS x y)) =
           [(h, EV_ABS, ABS_X, sint x), (h, EV_ABS, ABS_Y, - sint y), (h, EV_SYN, SYN_REPORT, 0)]
       \<and> map as_signed (snd (set_stick st Joypad_RS x y)) =
           [(h, EV_ABS, ABS_RX, sint x), (h, EV_ABS, ABS_RY, - sint y), (h, EV_SYN, SYN_REPORT, 0)]
       \<and> fst (set_stick st stick_type x y) = st"
proof -
  have "fst (set_stick st stick_type x y) = st"
    using assms by (simp add: set_stick_def)
  then show ?thesis
    by (simp add: set_stick_live [OF assms] as_signed_def sint_scast_16_32 sint_neg_scast_16_32)
qed

theorem set_stick_inverts_vertical_witness:
  "joy live_session = Some 7
   \<and> map as_signed (snd (set_stick live_session Joypad_LS 1000 2000)) =
       [(7, EV_ABS, ABS_X, 1000), (7, EV_ABS, ABS_Y, - 2000), (7, EV_SYN, SYN_REPORT, 0)]
   \<and> map as_signed (snd (set_stick live_session Joypad_RS (- 16384) (- 32768))) =
       [(7, EV_ABS, ABS_RX, - 16384), (7, EV_ABS, ABS_RY, 32768), (7, EV_SYN, SYN_REPORT, 0)]"
proof -
  have h: "joy live_session = Some 7"
    by (simp add: live_session_def)
  from set_stick_inverts_vertical [OF h, of 1000 2000]
       set_stick_inverts_vertical [OF h, of "- 16384" "- 32768"] h
  show ?thesis by simp
qed

text \<open>
  C4. For every pair of pressures in the range 0 to 255, \<^verbatim>\<open>set_triggers\<close> on a session with
  a live handle writes the left pressure on \<open>ABS_Z\<close> and the right pressure on \<open>ABS_RZ\<close>
  with their values unchanged, then one \<open>SYN_REPORT\<close>; \<^verbatim>\<open>set_triggers(0, 0)\<close> writes 0 on
  both axes.
\<close>

theorem set_triggers_passes_pressure:
  assumes "joy st = Some h"
    and "0 \<le> sint left" and "sint left \<le> 255"
    and "0 \<le> sint right" and "sint right \<le> 255"
  shows "map as_signed (snd (set_triggers st left right)) =
           [(h, EV_ABS, ABS_Z, sint left), (h, EV_ABS, ABS_RZ, sint right),
            (h, EV_SYN, SYN_REPORT, 0)]
       \<and> snd (set_triggers st 0 0) =
           [Write h EV_ABS ABS_Z 0, Write h EV_ABS ABS_RZ 0, Write h EV_SYN SYN_REPORT 0]
       \<and> fst (set_triggers st left right) = st"
  by (simp add: set_triggers_live [OF assms(1)] as_signed_def sint_scast_16_32)

theorem set_triggers_passes_pressure_witness:
  "joy live_session = Some 7
   \<and> 0 \<le> sint (125 :: s16) \<and> sint (125 :: s16) \<le> 255
   \<and> 0 \<le> sint (255 :: s16) \<and> sint (255 :: s16) \<le> 255
   \<and> map as_signed (snd (set_triggers live_session 125 255)) =
       [(7, EV_ABS, ABS_Z, 125), (7, EV_ABS, ABS_RZ, 255), (7, EV_SYN, SYN_REPORT, 0)]
   \<and> snd (set_triggers live_session 0 0) =
       [Write 7 EV_ABS ABS_Z 0, Write 7 EV_ABS ABS_RZ 0, Write 7 EV_SYN SYN_REPORT 0]"
proof -
  have h: "joy live_session = Some 7"
    by (simp add: live_session_def)
  have r: "0 \<le> sint (125 :: s16)" "sint (125 :: s16) \<le> 255"
          "0 \<le> sint (255 :: s16)" "sint (255 :: s16) \<le> 255"
    by simp_all
  from set_triggers_passes_pressure [OF h r] h r show ?thesis
    by simp
qed

text \<open>
  C9. For every pair of 16-bit signed values \<^verbatim>\<open>set_triggers\<close> equals the function without
  the two sign tests, and with a live handle the values written are the inputs themselves,
  negative ones included: nothing is clamped to the range 0 to 255.
\<close>

theorem set_triggers_branch_free_eq:
  "set_triggers st left right = set_triggers_branch_free st left right
   \<and> (joy st = Some h \<longrightarrow>
        map as_signed (snd (set_triggers st left right)) =
          [(h, EV_ABS, ABS_Z, sint left), (h, EV_ABS, ABS_RZ, sint right),
           (h, EV_SYN, SYN_REPORT, 0)])"
  by (simp add: set_triggers_def set_triggers_branch_free_def as_signed_def sint_scast_16_32
      split: option.split)

theorem set_triggers_branch_free_eq_witness:
  "joy live_session = Some 7
   \<and> set_triggers live_session (- 5) 300 = set_triggers_branch_free live_session (- 5) 300
   \<and> map as_signed (snd (set_triggers live_session (- 5) 300)) =
       [(7, EV_ABS, ABS_Z, - 5), (7, EV_ABS, ABS_RZ, 300), (7, EV_SYN, SYN_REPORT, 0)]"
proof -
  have h: "joy live_session = Some 7"
    by (simp add: live_session_def)
  note t = set_triggers_branch_free_eq [of live_session "- 5" 300 7]
  from t have a: "set_triggers live_session (- 5) 300 = set_triggers_branch_free live_session (- 5) 300"
    by (rule conjunct1)
  from t h have "map as_signed (snd (set_triggers live_session (- 5) 300)) =
       [(7, EV_ABS, ABS_Z, sint (- 5 :: s16)), (7, EV_ABS, ABS_RZ, sint (300 :: s16)),
        (7, EV_SYN, SYN_REPORT, 0)]"
    by blast
  then have b: "map as_signed (snd (set_triggers live_session (- 5) 300)) =
       [(7, EV_ABS, ABS_Z, - 5), (7, EV_ABS, ABS_RZ, 300), (7, EV_SYN, SYN_REPORT, 0)]"
    by simp
  from h a b show ?thesis
    by blast
qed

section \<open>Commands without a handle\<close>

text \<open>
  C6. When the device handle is absent, \<^verbatim>\<open>set_stick\<close> and \<^verbatim>\<open>set_triggers\<close> write nothing
  and leave the state as it is, and \<^verbatim>\<open>set_pressed_buttons\<close> writes nothing and stores the
  new mask as the previous mask. Each call returns a state: none faults.
\<close>

theorem commands_without_handle:
  assumes "joy st = None"
  shows "set_stick st stick_type x y = (st, [])
       \<and> set_triggers st left right = (st, [])
       \<and> set_pressed_buttons F st new = (st\<lparr>currently_pressed_btns := new\<rparr>, [])"
  using assms by (simp add: set_stick_def set_triggers_def set_pressed_buttons_def)

theorem commands_without_handle_witness:
  "joy PS5JoypadState_init = None
   \<and> set_stick PS5JoypadState_init Joypad_LS 1000 2000 = (PS5JoypadState_init, [])
   \<and> set_triggers PS5JoypadState_init 125 255 = (PS5JoypadState_init, [])
   \<and> set_pressed_buttons one_bit_flags PS5JoypadState_init 0x1001 =
       (PS5JoypadState_init\<lparr>currently_pressed_btns := 0x1001\<rparr>, [])"
proof -
  have h: "joy PS5JoypadState_init = None"
    by (simp add: PS5JoypadState_init_def)
  from commands_without_handle [OF h] h show ?thesis
    by blast
qed

section \<open>Creation\<close>

text \<open>
  C5. \<^verbatim>\<open>create\<close> returns an error, and no session, exactly when the registration returns a
  non-zero code; the error is the text of that code. When the registration returns zero,
  \<^verbatim>\<open>create\<close> returns a session whose state holds the handle obtained, whose listener
  thread has been started and detached, and whose stored previous mask is zero.
\<close>

theorem create_result:
  "((\<exists>msg. create env d = Inl msg) \<longleftrightarrow>
      fst (uinput_create_from_device env (ps_controller_dev d)) \<noteq> 0)
   \<and> (fst (uinput_create_from_device env (ps_controller_dev d)) \<noteq> 0 \<longrightarrow>
        create env d =
          Inl (strerror env (- fst (uinput_create_from_device env (ps_controller_dev d)))))
   \<and> (fst (uinput_create_from_device env (ps_controller_dev d)) = 0 \<longrightarrow>
        create env d =
          Inr \<lparr>joy = Some (snd (uinput_create_from_device env (ps_controller_dev d))),
               currently_pressed_btns = 0, stop_listening_events = False,
               events_thread = Detached, on_rumble = None\<rparr>)"
  by (simp add: create_def create_ps_controller_def PS5Joypad_def PS5JoypadState_init_def
      case_prod_unfold Let_def)

theorem create_result_witness:
  "fst (uinput_create_from_device accepting_env (ps_controller_dev sample_definition)) = 0
   \<and> create accepting_env sample_definition =
       Inr \<lparr>joy = Some 7, currently_pressed_btns = 0, stop_listening_events = False,
            events_thread = Detached, on_rumble = None\<rparr>
   \<and> fst (uinput_create_from_device refusing_env (ps_controller_dev sample_definition)) \<noteq> 0
   \<and> create refusing_env sample_definition = Inl ''errno''"
  using create_result [of accepting_env sample_definition]
        create_result [of refusing_env sample_definition]
  by (simp add: accepting_env_def refusing_env_def)

section \<open>The capability descriptor\<close>

lemma abs_info_ps_controller_dev:
  "abs_info (ps_controller_dev d) =
     [ABS_HAT0Y \<mapsto> absinfo_init 0 (- 1) 1 0 0 0,
      ABS_HAT0X \<mapsto> absinfo_init 0 (- 1) 1 0 0 0,
      ABS_X \<mapsto> absinfo_init 0 (- 32768) 32767 16 128 0,
      ABS_RX \<mapsto> absinfo_init 0 (- 32768) 32767 16 128 0,
      ABS_Y \<mapsto> absinfo_init 0 (- 32768) 32767 16 128 0,
      ABS_RY \<mapsto> absinfo_init 0 (- 32768) 32767 16 128 0,
      ABS_Z \<mapsto> absinfo_init 0 0 255 0 0 0,
      ABS_RZ \<mapsto> absinfo_init 0 0 255 0 0 0]"
  by (simp add: ps_controller_dev_def libevdev_enable_event_code_def
      libevdev_enable_event_type_def libevdev_set_id_bustype_def libevdev_set_id_version_def
      libevdev_set_id_product_def libevdev_set_id_vendor_def libevdev_set_name_def
      libevdev_new_def Let_def)

lemma identity_ps_controller_dev:
  "dev_name (ps_controller_dev d) = name d
   \<and> id_vendor (ps_controller_dev d) = ucast (vendor_id d)
   \<and> id_product (ps_controller_dev d) = ucast (product_id d)
   \<and> id_version (ps_controller_dev d) = ucast (version d)
   \<and> id_bustype (ps_controller_dev d) = BUS_USB"
  by (simp add: ps_controller_dev_def libevdev_enable_event_code_def
      libevdev_enable_event_type_def libevdev_set_id_bustype_def libevdev_set_id_version_def
      libevdev_set_id_product_def libevdev_set_id_vendor_def libevdev_set_name_def
      libevdev_new_def Let_def)

text \<open>
  C7, as the specification states it, at the primary stick's horizontal axis of the sample
  definition: the description does not carry flat 16 and fuzz 128.
\<close>

theorem stick_flat_16_fuzz_128_counterexample:
  "axis_calibration (ps_controller_dev sample_definition) ABS_X \<noteq>
     Some \<lparr>cal_minimum = - 32768, cal_maximum = 32767, cal_fuzz = 128, cal_flat = 16\<rparr>"
  by (simp add: axis_calibration_def abs_info_ps_controller_dev absinfo_init_def)

text \<open>
  C7, amended. The description is a function of the \<^verbatim>\<open>DeviceDefinition\<close> alone and, for
  every definition, gives the four stick axes minimum -32768, maximum 32767, fuzz 16 and
  flat (deadzone) 128, and the two trigger axes minimum 0 and maximum 255.
\<close>

theorem descriptor_calibration:
  "map (axis_calibration (ps_controller_dev d)) [ABS_X, ABS_Y, ABS_RX, ABS_RY] =
     replicate 4 (Some \<lparr>cal_minimum = - 32768, cal_maximum = 32767, cal_fuzz = 16, cal_flat = 128\<rparr>)
   \<and> map (map_option (\<lambda>c. (cal_minimum c, cal_maximum c)) \<circ> axis_calibration (ps_controller_dev d))
       [ABS_Z, ABS_RZ] = replicate 2 (Some (0, 255))"
  by (simp add: axis_calibration_def abs_info_ps_controller_dev absinfo_init_def
      numeral_eq_Suc)

theorem descriptor_calibration_witness:
  "axis_calibration (ps_controller_dev sample_definition) ABS_RY =
     Some \<lparr>cal_minimum = - 32768, cal_maximum = 32767, cal_fuzz = 16, cal_flat = 128\<rparr>"
  using descriptor_calibration [of sample_definition] by (simp add: numeral_eq_Suc)

section \<open>Destruction\<close>

lemma exec_keeps:
  "joy (fst (exec F st c)) = joy st
   \<and> events_thread (fst (exec F st c)) = events_thread st
   \<and> stop_listening_events (fst (exec F st c)) = stop_listening_events st"
  by (cases c)
     (simp_all add: set_pressed_buttons_def set_stick_def set_triggers_def set_on_rumble_def
        Let_def split: option.split)

lemma run_keeps:
  "joy (fst (run F st cs)) = joy st
   \<and> events_thread (fst (run F st cs)) = events_thread st
   \<and> stop_listening_events (fst (run F st cs)) = stop_listening_events st"
  by (induction cs arbitrary: st) (simp_all add: case_prod_unfold Let_def exec_keeps)

text \<open>
  A session returned by \<^verbatim>\<open>create\<close> has its listener thread detached and no command attaches
  it again: after every sequence of command calls the destructor sets the stop flag and
  does not reach its call of \<^verbatim>\<open>join\<close>.
\<close>

lemma created_session_is_not_joined:
  assumes "create env d = Inr s"
  shows "destroy (Some (fst (run F s cmds))) =
           (Some ((fst (run F s cmds))\<lparr>stop_listening_events := True\<rparr>), False)"
proof -
  from assms have "joy s \<noteq> None" "events_thread s = Detached"
    by (auto simp: create_def Let_def split: sum.splits)
  then show ?thesis
    by (simp add: run_keeps)
qed

text \<open>
  C8. The claim asks the destructor to set the stop flag and then wait until the listener
  has exited. The destructor has the call that waits, \<^verbatim>\<open>events_thread.join()\<close> behind
  \<^verbatim>\<open>joinable()\<close>, and takes it for a session whose thread is still attached. At the session
  the accepting kernel gives for the sample definition the thread is detached by
  \<^verbatim>\<open>create\<close>, so the destructor sets the stop flag and returns without that call.
\<close>

theorem destroy_created_session_skips_join:
  "create accepting_env sample_definition = Inr live_session
   \<and> events_thread live_session = Detached
   \<and> destroy (Some live_session) = (Some (live_session\<lparr>stop_listening_events := True\<rparr>), False)
   \<and> snd (destroy (Some (live_session\<lparr>events_thread := Attached\<rparr>))) = True"
  by (simp add: create_def create_ps_controller_def accepting_env_def live_session_def
      PS5Joypad_def PS5JoypadState_init_def)

section \<open>The constructor\<close>

text \<open>
  C10. The constructor ignores \<open>vendor_id\<close> and \<open>mac_address\<close>: two sessions constructed
  with any two values of them are equal, stay equal through every sequence of commands once
  given the same handle, and produce the same writes; the identity of the registered device
  is read from the \<^verbatim>\<open>DeviceDefinition\<close> alone.
\<close>

theorem constructor_ignores_arguments:
  "PS5Joypad v1 m1 = PS5Joypad v2 m2
   \<and> run F ((PS5Joypad v1 m1)\<lparr>joy := j\<rparr>) cmds = run F ((PS5Joypad v2 m2)\<lparr>joy := j\<rparr>) cmds
   \<and> dev_name (ps_controller_dev d) = name d
   \<and> id_vendor (ps_controller_dev d) = ucast (vendor_id d)
   \<and> id_product (ps_controller_dev d) = ucast (product_id d)
   \<and> id_version (ps_controller_dev d) = ucast (version d)"
  by (simp add: PS5Joypad_def identity_ps_controller_dev)

theorem constructor_ignores_arguments_witness:
  "PS5Joypad 0x054C [1, 2, 3, 4, 5, 6] = PS5Joypad 0 []
   \<and> id_vendor (ps_controller_dev sample_definition) = 0x054C"
  using constructor_ignores_arguments [of "0x054C" "[1, 2, 3, 4, 5, 6]" 0 "[]" _ _ _ sample_definition]
  by (simp add: sample_definition_def)

end
